theory Spec2Isabelle
  imports Complex_Main
begin

section \<open>JavaScript values used by the components\<close>

text \<open>
  A \<open>ReactNode\<close> prop (\<open>emptyMessage\<close>, \<open>errorMessage\<close>) is a string, a number, a
  boolean, \<open>null\<close>, \<open>undefined\<close> or an element. The components only test such a value
  for truthiness (\<open>!!errorMessage\<close>, \<open>emptyMessage || ...\<close>) and pass it on.
\<close>

datatype ReactNode =
    RUndefined
  | RNull
  | RBoolean bool
  | RString string
  | RNumber int
  | RNaN
  | RElement string

fun truthy :: "ReactNode \<Rightarrow> bool" where
  "truthy RUndefined = False"
| "truthy RNull = False"
| "truthy (RBoolean b) = b"
| "truthy (RString s) = (s \<noteq> [])"
| "truthy (RNumber n) = (n \<noteq> 0)"
| "truthy RNaN = False"
| "truthy (RElement e) = True"

text \<open>An optional boolean prop (\<open>loading?: boolean\<close>, \<open>noMetrics\<close>) used as a condition.\<close>

fun flag :: "bool option \<Rightarrow> bool" where
  "flag None = False"
| "flag (Some b) = b"

text \<open>
  The string a template literal gives for an integer-valued number (\<open>`${n}`\<close>,
  \<open>n.toString()\<close>): its decimal numeral, with a minus sign when negative.
\<close>

definition digit_char :: "nat \<Rightarrow> char" where
  "digit_char d = ''0123456789'' ! d"

fun digits_of_nat :: "nat \<Rightarrow> string" where
  "digits_of_nat n =
     (if n < 10 then [digit_char n] else digits_of_nat (n div 10) @ [digit_char (n mod 10)])"

declare digits_of_nat.simps [simp del]

definition Number_toString :: "int \<Rightarrow> string" where
  "Number_toString n =
     (if n < 0 then CHR ''-'' # digits_of_nat (nat (- n)) else digits_of_nat (nat n))"

section \<open>Circular usage charts (MemoryCircularChart, CpuCircularChart)\<close>

text \<open>
  \<open>formatMetricValueUnit(value, unit, family)\<close> of \<open>lib/units\<close> and the translation
  function \<open>t\<close> of \<open>react-i18next\<close> are imported by the charts and are parameters here.
  \<open>used\<close> and \<open>available\<close> are JavaScript numbers; the legend functions only compare
  \<open>available\<close> with \<open>0\<close> and \<open>-1\<close> and hand both numbers to the formatter.
\<close>

type_synonym formatter = "real \<Rightarrow> string \<Rightarrow> string \<Rightarrow> string"

definition MemoryCircularChart_getLegend ::
  "formatter \<Rightarrow> bool option \<Rightarrow> real \<Rightarrow> real \<Rightarrow> string" where
  "MemoryCircularChart_getLegend formatMetricValueUnit noMetrics used available =
     (if available = 0 \<or> available = - 1 then ''''
      else
        let availableLabel = formatMetricValueUnit available '''' ''binary'' in
        if flag noMetrics then availableLabel
        else
          let usedLabel = formatMetricValueUnit used '''' ''binary'' in
          usedLabel @ '' / '' @ availableLabel)"

definition CpuCircularChart_getLegend ::
  "formatter \<Rightarrow> (string \<Rightarrow> string) \<Rightarrow> bool option \<Rightarrow> real \<Rightarrow> real \<Rightarrow> string" where
  "CpuCircularChart_getLegend formatMetricValueUnit t noMetrics used available =
     (if available = 0 \<or> available = - 1 then ''''
      else
        let availableLabel = formatMetricValueUnit available '''' '''' @ '' '' @ t ''cores'' in
        if flag noMetrics then availableLabel
        else
          let usedLabel = formatMetricValueUnit used '''' ''cpu'' in
          usedLabel @ '' / '' @ availableLabel)"

section \<open>Themed logo (AppLogo.tsx)\<close>

datatype LogoType = small | large

text \<open>The four built-in SVG assets imported by the module.\<close>

datatype Asset = LogoDark | LogoLight | LogoWithTextDark | LogoWithTextLight

text \<open>
  \<open>AppLogoProps\<close>: \<open>logoType\<close> and \<open>themeName\<close> are the props the two components read;
  the record's extension stands for \<open>className\<close>, \<open>sx\<close> and the index signature.
\<close>

record AppLogoProps =
  logoType :: "LogoType option"
  themeName :: "string option"

text \<open>
  \<open>AppLogoType\<close>: what a plugin registered in \<open>state.theme.logo\<close>: nothing (\<open>null\<close>), a
  ready element (\<open>isValidElement\<close>), or a component.
\<close>

datatype ('e, 'c) AppLogoType = NoLogo | LogoElement 'e | LogoComponent 'c

record ('e, 'c) redux_state =
  plugins_loaded :: bool
  theme_logo :: "('e, 'c) AppLogoType"

text \<open>What \<open>AppLogo\<close> returns.\<close>

datatype ('e, 'c) PluginContent =
    ElementAsIs 'e
  | ComponentWith 'c LogoType string

datatype ('e, 'c) LogoView =
    EmptyContent
  | ErrorBoundary "('e, 'c) PluginContent"
  | BuiltIn Asset

definition OriginalAppLogo :: "LogoType option \<Rightarrow> string option \<Rightarrow> Asset" where
  "OriginalAppLogo lt tn =
     (if lt = Some large
      then (if tn = Some ''dark'' then LogoWithTextLight else LogoWithTextDark)
      else (if tn = Some ''dark'' then LogoLight else LogoDark))"

text \<open>
  \<open>getThemeName\<close> is the value \<open>getThemeName()\<close> returns and \<open>mode\<close> the value of
  \<open>useNavBarMode()\<close> (both from \<open>lib/themes\<close>).
\<close>

definition AppLogo ::
  "string \<Rightarrow> string \<Rightarrow> ('e, 'c) redux_state \<Rightarrow> 'a AppLogoProps_scheme \<Rightarrow> ('e, 'c) LogoView" where
  "AppLogo getThemeName mode state props =
     (let logoType' = (case logoType props of None \<Rightarrow> large | Some l \<Rightarrow> l);
          themeName' = (case themeName props of None \<Rightarrow> getThemeName | Some n \<Rightarrow> n);
          arePluginsLoaded = plugins_loaded state;
          PluginAppLogoComponent = theme_logo state
      in
        if \<not> arePluginsLoaded then EmptyContent
        else
          (case PluginAppLogoComponent of
             LogoElement e \<Rightarrow> ErrorBoundary (ElementAsIs e)
           | LogoComponent c \<Rightarrow> ErrorBoundary (ComponentWith c logoType' themeName')
           | NoLogo \<Rightarrow> BuiltIn (OriginalAppLogo (Some logoType') (Some mode))))"

section \<open>Generic data table (Table.tsx)\<close>

subsection \<open>Props\<close>

text \<open>\<open>gridTemplate?: string | number\<close>: the width hint of a column.\<close>

datatype gridTemplate = GTNumber int | GTString string

record TableColumn =
  column_id :: "string option"
  header :: "string option"
  gridTemplate :: "gridTemplate option"

text \<open>\<open>reflectInURL?: string | boolean\<close>.\<close>

datatype reflect = ReflectBool bool | ReflectPrefix string

text \<open>\<open>tableProps.state\<close>, of which the component reads \<open>columnVisibility\<close>.\<close>

record MRT_TableState =
  columnVisibility :: "(string \<rightharpoonup> bool) option"

text \<open>\<open>enableRowSelection\<close> of the grid engine: a boolean or a predicate on rows.\<close>

datatype 'row RowSelection = SelectionFlag bool | SelectionFn "'row \<Rightarrow> bool"

fun selection_enabled :: "'row RowSelection option \<Rightarrow> bool" where
  "selection_enabled None = False"
| "selection_enabled (Some (SelectionFlag b)) = b"
| "selection_enabled (Some (SelectionFn f)) = True"

record 'row TableProps =
  columns :: "TableColumn list"
  data :: "'row list option"
  emptyMessage :: ReactNode
  errorMessage :: ReactNode
  reflectInURL :: "reflect option"
  initialPage :: "int option"
  rowsPerPage :: "int list option"
  filterFunction :: "('row \<Rightarrow> bool) option"
  loading :: "bool option"
  enableRowActions :: "bool option"
  enableRowSelection :: "'row RowSelection option"
  table_state :: "MRT_TableState option"

definition shouldReflectInURL :: "('row, 'a) TableProps_scheme \<Rightarrow> bool" where
  "shouldReflectInURL props =
     (reflectInURL props \<noteq> None \<and> reflectInURL props \<noteq> Some (ReflectBool False))"

definition url_prefix :: "('row, 'a) TableProps_scheme \<Rightarrow> string" where
  "url_prefix props =
     (case reflectInURL props of
        Some (ReflectBool True) \<Rightarrow> ''''
      | Some (ReflectPrefix s) \<Rightarrow> (if s \<noteq> [] then s else '''')
      | Some (ReflectBool False) \<Rightarrow> ''''
      | None \<Rightarrow> '''')"

text \<open>\<open>tableProps.data?.length\<close> as a condition: the data prop is present and not empty.\<close>

definition data_length_truthy :: "('row, 'a) TableProps_scheme \<Rightarrow> bool" where
  "data_length_truthy props =
     (case data props of None \<Rightarrow> False | Some rows \<Rightarrow> length rows \<noteq> 0)"

subsection \<open>Derived values of a render\<close>

definition tableData :: "('row, 'a) TableProps_scheme \<Rightarrow> 'row list" where
  "tableData props =
     (case filterFunction props of
        None \<Rightarrow> (case data props of None \<Rightarrow> [] | Some rows \<Rightarrow> rows)
      | Some f \<Rightarrow> filter (\<lambda>it. f it) (case data props of None \<Rightarrow> [] | Some rows \<Rightarrow> rows))"

text \<open>\<open>Array.prototype.join\<close> on strings.\<close>

fun join :: "string \<Rightarrow> string list \<Rightarrow> string" where
  "join sep [] = ''''"
| "join sep [x] = x"
| "join sep (x # y # ys) = x @ sep @ join sep (y # ys)"

text \<open>
  \<open>columnVisibility?.[it.id!] === false\<close>; a column without an id is looked up under
  the property name \<open>undefined\<close>.
\<close>

definition isHidden :: "('row, 'a) TableProps_scheme \<Rightarrow> TableColumn \<Rightarrow> bool" where
  "isHidden props it =
     (case table_state props of
        None \<Rightarrow> False
      | Some st \<Rightarrow>
          (case columnVisibility st of
             None \<Rightarrow> False
           | Some vis \<Rightarrow>
               vis (case column_id it of None \<Rightarrow> ''undefined'' | Some i \<Rightarrow> i) = Some False))"

definition track :: "TableColumn \<Rightarrow> string" where
  "track it =
     (case gridTemplate it of
        Some (GTNumber n) \<Rightarrow> Number_toString n @ ''fr''
      | Some (GTString s) \<Rightarrow> s
      | None \<Rightarrow> ''1fr'')"

definition gridTemplateColumns :: "('row, 'a) TableProps_scheme \<Rightarrow> string" where
  "gridTemplateColumns props =
     (let preGridTemplateColumns =
            join '' '' (map track (filter (\<lambda>it. \<not> isHidden props it) (columns props)));
          preGridTemplateColumns =
            (if flag (enableRowActions props) then preGridTemplateColumns @ '' 0.05fr''
             else preGridTemplateColumns);
          preGridTemplateColumns =
            (if selection_enabled (enableRowSelection props)
             then ''0.05fr '' @ preGridTemplateColumns
             else preGridTemplateColumns)
      in preGridTemplateColumns)"

text \<open>
  \<open>rowsPerPage || storeRowsPerPageOptions\<close>: an array is truthy even when empty, so the
  stored options are used only when the prop is absent.
\<close>

definition rowsPerPageOptions :: "int list \<Rightarrow> ('row, 'a) TableProps_scheme \<Rightarrow> int list" where
  "rowsPerPageOptions storeRowsPerPageOptions props =
     (case rowsPerPage props of None \<Rightarrow> storeRowsPerPageOptions | Some opts \<Rightarrow> opts)"

text \<open>
  \<open>tableData.length > rowsPerPageOptions[0]\<close>; the first element of an empty array is
  \<open>undefined\<close>, and a number compared with \<open>undefined\<close> gives \<open>false\<close>.
\<close>

definition enablePagination :: "int list \<Rightarrow> ('row, 'a) TableProps_scheme \<Rightarrow> bool" where
  "enablePagination storeRowsPerPageOptions props =
     (case rowsPerPageOptions storeRowsPerPageOptions props of
        [] \<Rightarrow> False
      | first # _ \<Rightarrow> int (length (tableData props)) > first)"

subsection \<open>URL-reflected pagination state\<close>

text \<open>
  The state the hooks of one table hold between renders: the query string of the
  location (parameter name to value), the value \<open>page\<close> that \<open>useURLState\<close> returns inside
  \<open>usePageURLState\<close>, the \<open>zeroIndexPage\<close> of its \<open>useState\<close>, and the dependencies
  (\<open>[page]\<close>, \<open>[zeroIndexPage]\<close>) with which its two effects last ran; \<open>None\<close> before
  the first commit, when every effect runs.
\<close>

record page_hooks =
  url :: "string \<rightharpoonup> string"
  page :: int
  zeroIndexPage :: int
  seen_page :: "int option"
  seen_zeroIndexPage :: "int option"

text \<open>
  Modelled from the spec: the number a URL parameter stands for. \<open>useURLState\<close> of
  \<open>lib/util\<close>, which reads it, is not among the sources; the spec speaks of one-based
  page numbers, read here as decimal numerals.
\<close>

definition digit_value :: "char \<Rightarrow> nat option" where
  "digit_value c =
     map_of [(CHR ''0'', 0), (CHR ''1'', 1), (CHR ''2'', 2), (CHR ''3'', 3), (CHR ''4'', 4),
             (CHR ''5'', 5), (CHR ''6'', 6), (CHR ''7'', 7), (CHR ''8'', 8), (CHR ''9'', 9)] c"

fun parse_digits :: "nat \<Rightarrow> string \<Rightarrow> nat option" where
  "parse_digits acc [] = Some acc"
| "parse_digits acc (c # cs) =
     (case digit_value c of None \<Rightarrow> None | Some d \<Rightarrow> parse_digits (10 * acc + d) cs)"

definition Number_of_string :: "string \<Rightarrow> int option" where
  "Number_of_string s =
     (case s of
        [] \<Rightarrow> None
      | c # cs \<Rightarrow>
          if c = CHR ''-''
          then (if cs = [] then None else map_option (\<lambda>n. - int n) (parse_digits 0 cs))
          else map_option int (parse_digits 0 s))"

text \<open>
  Modelled from the spec: the name of the URL parameter of \<open>useURLState(key, {prefix})\<close>,
  which is not among the sources. The spec gives the parameters as \<open><prefix>p\<close> and
  \<open><prefix>perPage\<close>, or unprefixed.
\<close>

definition fullKey :: "string \<Rightarrow> string \<Rightarrow> string" where
  "fullKey prefix key = prefix @ key"

text \<open>
  Modelled from the spec: the value \<open>useURLState\<close> (not among the sources) takes from the
  URL. The state is mirrored into the URL only when reflection is requested, which the
  table expresses by a non-empty key; a missing or non-numeric parameter gives the
  default value.
\<close>

definition useURLState_value :: "string \<Rightarrow> string \<Rightarrow> int \<Rightarrow> (string \<rightharpoonup> string) \<Rightarrow> int" where
  "useURLState_value key prefix defaultValue u =
     (if key = [] then defaultValue
      else
        (case u (fullKey prefix key) of
           None \<Rightarrow> defaultValue
         | Some s \<Rightarrow> (case Number_of_string s of None \<Rightarrow> defaultValue | Some n \<Rightarrow> n)))"

text \<open>
  Modelled from the spec: the write of \<open>useURLState\<close> (not among the sources) to the URL
  when its setter is called: the new value is pushed to the parameter, as its string.
\<close>

definition useURLState_push ::
  "string \<Rightarrow> string \<Rightarrow> int \<Rightarrow> (string \<rightharpoonup> string) \<Rightarrow> (string \<rightharpoonup> string)" where
  "useURLState_push key prefix v u =
     (if key = [] then u else u(fullKey prefix key \<mapsto> Number_toString v))"

text \<open>
  Modelled from the spec: \<open>setPage\<close>, the setter \<open>useURLState\<close> (not among the sources)
  returns inside \<open>usePageURLState\<close>: it stores the value and pushes it to the URL.
\<close>

definition setPage :: "string \<Rightarrow> string \<Rightarrow> int \<Rightarrow> 'a page_hooks_scheme \<Rightarrow> 'a page_hooks_scheme" where
  "setPage key prefix v st = st\<lparr>page := v, url := useURLState_push key prefix v (url st)\<rparr>"


text \<open>\<open>usePageURLState\<close>, from the source. The first render:\<close>

definition usePageURLState_mount ::
  "string \<Rightarrow> string \<Rightarrow> int \<Rightarrow> (string \<rightharpoonup> string) \<Rightarrow> page_hooks" where
  "usePageURLState_mount key prefix initialPage' u =
     (let page' = useURLState_value key prefix (initialPage' + 1) u in
      \<lparr>url = u, page = page', zeroIndexPage = page' - 1,
       seen_page = None, seen_zeroIndexPage = None\<rparr>)"

text \<open>The setter the hook returns (\<open>setZeroIndexPage\<close> of \<open>useState\<close>).\<close>

definition setZeroIndexPage :: "int \<Rightarrow> 'a page_hooks_scheme \<Rightarrow> 'a page_hooks_scheme" where
  "setZeroIndexPage v st = st\<lparr>zeroIndexPage := v\<rparr>"

text \<open>
  The effects of one commit. Both see the \<open>page\<close> and \<open>zeroIndexPage\<close> of the render they
  belong to; the first runs when \<open>page\<close> differs from the previous render's, the second
  when \<open>zeroIndexPage\<close> does.
\<close>

definition usePageURLState_effects ::
  "string \<Rightarrow> string \<Rightarrow> 'a page_hooks_scheme \<Rightarrow> 'a page_hooks_scheme" where
  "usePageURLState_effects key prefix st =
     (let page' = page st;
          zeroIndexPage' = zeroIndexPage st;
          page_changed = (seen_page st \<noteq> Some page');
          zero_changed = (seen_zeroIndexPage st \<noteq> Some zeroIndexPage');
          st1 = st\<lparr>seen_page := Some page', seen_zeroIndexPage := Some zeroIndexPage'\<rparr>;
          st2 = (if page_changed
                 then setZeroIndexPage
                        (if page' - 1 \<noteq> zeroIndexPage' then page' - 1 else zeroIndexPage') st1
                 else st1);
          st3 = (if zero_changed then setPage key prefix (zeroIndexPage' + 1) st2 else st2)
      in st3)"

text \<open>No effect is due: the component is at rest until the next event.\<close>

definition quiescent :: "'a page_hooks_scheme \<Rightarrow> bool" where
  "quiescent st =
     (seen_page st = Some (page st) \<and> seen_zeroIndexPage st = Some (zeroIndexPage st))"

text \<open>
  Rendering and running effects until none is due. Two effects that keep undoing each
  other would go on forever: then the result is \<open>None\<close>.
\<close>

partial_function (option) usePageURLState_settle ::
  "string \<Rightarrow> string \<Rightarrow> 'a page_hooks_scheme \<Rightarrow> 'a page_hooks_scheme option" where
  "usePageURLState_settle key prefix st =
     (if quiescent st then Some st
      else usePageURLState_settle key prefix (usePageURLState_effects key prefix st))"

subsection \<open>The table's own state and its pagination handler\<close>

record table_hooks = page_hooks +
  pageSizeValue :: int

record MRT_PaginationState =
  pageIndex :: int
  pageSize :: int

text \<open>
  Modelled from the spec: \<open>setPageSize\<close>, the setter \<open>useURLState\<close> (not among the
  sources) returns for the \<open>perPage\<close> parameter.
\<close>

definition setPageSize :: "string \<Rightarrow> string \<Rightarrow> int \<Rightarrow> table_hooks \<Rightarrow> table_hooks" where
  "setPageSize key prefix v st =
     st\<lparr>pageSizeValue := v, url := useURLState_push key prefix v (url st)\<rparr>"

text \<open>
  The first render of \<open>Table\<close>: the hooks are created from the props and the location.
  \<open>getTablesRowsPerPage\<close> of \<open>helpers\<close> (a parameter) gives the default page size from
  the first option, which is \<open>undefined\<close> for an empty list.
\<close>

definition Table_mount ::
  "(int option \<Rightarrow> int) \<Rightarrow> int list \<Rightarrow> ('row, 'a) TableProps_scheme \<Rightarrow> (string \<rightharpoonup> string) \<Rightarrow> table_hooks" where
  "Table_mount getTablesRowsPerPage storeRowsPerPageOptions props u =
     (let prefix = url_prefix props;
          hooks = usePageURLState_mount (if shouldReflectInURL props then ''p'' else '''') prefix
                    (case initialPage props of None \<Rightarrow> 1 | Some i \<Rightarrow> i) u;
          defaultRowsPerPage =
            getTablesRowsPerPage
              (case rowsPerPageOptions storeRowsPerPageOptions props of
                 [] \<Rightarrow> None | first # _ \<Rightarrow> Some first);
          pageSize' = useURLState_value (if shouldReflectInURL props then ''perPage'' else '''')
                        prefix defaultRowsPerPage u
      in \<lparr>url = url hooks, page = page hooks, zeroIndexPage = zeroIndexPage hooks,
          seen_page = seen_page hooks, seen_zeroIndexPage = seen_zeroIndexPage hooks,
          pageSizeValue = pageSize'\<rparr>)"

text \<open>
  \<open>onPaginationChange\<close>. Inside \<open>Table\<close> the name \<open>page\<close> is the first component of what
  \<open>usePageURLState\<close> returns, that is \<open>zeroIndexPage\<close>, and \<open>setPage\<close> is
  \<open>setZeroIndexPage\<close>.
\<close>

definition onPaginationChange ::
  "('row, 'a) TableProps_scheme \<Rightarrow> (MRT_PaginationState \<Rightarrow> MRT_PaginationState) \<Rightarrow>
   table_hooks \<Rightarrow> table_hooks" where
  "onPaginationChange props updater st =
     (if \<not> data_length_truthy props then st
      else
        let pagination = updater \<lparr>pageIndex = zeroIndexPage st - 1, pageSize = pageSizeValue st\<rparr>;
            st1 = setZeroIndexPage (pageIndex pagination + 1) st;
            st2 = setPageSize (if shouldReflectInURL props then ''perPage'' else '''')
                    (url_prefix props) (pageSize pagination) st1
        in st2)"

subsection \<open>What the component returns\<close>

record 'row MRT_options =
  opt_data :: "'row list"
  opt_enablePagination :: bool
  opt_pagination :: MRT_PaginationState

datatype 'row TableView =
    ErrorView ReactNode
  | LoaderView string
  | EmptyView ReactNode
  | GridView string "'row MRT_options"

definition Table ::
  "(string \<Rightarrow> string) \<Rightarrow> int list \<Rightarrow> ('row, 'a) TableProps_scheme \<Rightarrow> table_hooks \<Rightarrow> 'row TableView" where
  "Table t storeRowsPerPageOptions props st =
     (let table = \<lparr>opt_data = tableData props,
                   opt_enablePagination = enablePagination storeRowsPerPageOptions props,
                   opt_pagination = \<lparr>pageIndex = zeroIndexPage st - 1, pageSize = pageSizeValue st\<rparr>\<rparr>
      in
        if truthy (errorMessage props) then ErrorView (errorMessage props)
        else if flag (loading props) then LoaderView (t ''Loading table data'')
        else if \<not> data_length_truthy props \<and> \<not> flag (loading props)
        then EmptyView (if truthy (emptyMessage props) then emptyMessage props
                        else RString (t ''No data to be shown.''))
        else GridView (gridTemplateColumns props) table)"

section \<open>Example plugin: cluster registration (dynamic-clusters/src/index.tsx)\<close>

text \<open>What \<open>yaml.load\<close> returns: a JavaScript value.\<close>

datatype yaml_value =
    YUndefined
  | YNull
  | YBool bool
  | YNumber int
  | YString string
  | YSeq "yaml_value list"
  | YMap "(string \<times> yaml_value) list"

fun yaml_truthy :: "yaml_value \<Rightarrow> bool" where
  "yaml_truthy YUndefined = False"
| "yaml_truthy YNull = False"
| "yaml_truthy (YBool b) = b"
| "yaml_truthy (YNumber n) = (n \<noteq> 0)"
| "yaml_truthy (YString s) = (s \<noteq> [])"
| "yaml_truthy (YSeq xs) = True"
| "yaml_truthy (YMap kvs) = True"

text \<open>Reading a property (\<open>obj.apiVersion\<close>) of a truthy value: \<open>undefined\<close> unless a mapping has the key.\<close>

fun property :: "yaml_value \<Rightarrow> string \<Rightarrow> yaml_value" where
  "property (YMap kvs) k = (case map_of kvs k of None \<Rightarrow> YUndefined | Some v \<Rightarrow> v)"
| "property v k = YUndefined"

datatype js_error = Error (message: string)

text \<open>
  \<open>atob\<close> (the browser's) and \<open>yaml.load\<close> (js-yaml's) either return or throw; they are
  parameters.
\<close>

definition isValidKubeconfig ::
  "(string \<Rightarrow> js_error + string) \<Rightarrow> (string \<Rightarrow> js_error + yaml_value) \<Rightarrow> string \<Rightarrow> string option" where
  "isValidKubeconfig atob yaml_load base64Kubeconfig =
     (case atob base64Kubeconfig of
        Inl e \<Rightarrow> Some (''Error decoding/parsing kubeconfig: '' @ message e)
      | Inr kubeconfig' \<Rightarrow>
          (case yaml_load kubeconfig' of
             Inl e \<Rightarrow> Some (''Error decoding/parsing kubeconfig: '' @ message e)
           | Inr kubeconfigObject \<Rightarrow>
               if yaml_truthy kubeconfigObject
                  \<and> property kubeconfigObject ''apiVersion'' = YString ''v1''
                  \<and> property kubeconfigObject ''kind'' = YString ''Config''
               then None
               else Some ''Invalid kubeconfig format: Missing required fields''))"

record ClusterCreationButton =
  modal_open :: bool
  kubeconfig :: string
  name :: string
  server :: string
  isDynamicClusterEnabled :: bool
  error :: "string option"

text \<open>The calls of \<open>Headlamp.setCluster\<close> a handler makes.\<close>

datatype setCluster_call = Kubeconfig string | NameServer string string

definition handleSubmit ::
  "(string \<Rightarrow> js_error + string) \<Rightarrow> (string \<Rightarrow> js_error + yaml_value) \<Rightarrow>
   ClusterCreationButton \<Rightarrow> ClusterCreationButton \<times> setCluster_call list" where
  "handleSubmit atob yaml_load st =
     (let st1 = st\<lparr>error := None\<rparr> in
      if isDynamicClusterEnabled st
      then
        (case isValidKubeconfig atob yaml_load (kubeconfig st) of
           None \<Rightarrow> (st1\<lparr>modal_open := False\<rparr>, [Kubeconfig (kubeconfig st)])
         | Some validationError \<Rightarrow>
             if validationError \<noteq> []
             then (st1\<lparr>error := Some validationError\<rparr>, [])
             else (st1\<lparr>modal_open := False\<rparr>, [Kubeconfig (kubeconfig st)]))
      else (st1\<lparr>modal_open := False\<rparr>, [NameServer (name st) (server st)]))"

section \<open>Sample inputs\<close>

text \<open>A table without any optional prop, and the hook state of a table at rest on its first page.\<close>

definition no_props :: "string TableProps" where
  "no_props =
     \<lparr>columns = [], data = None, emptyMessage = RUndefined, errorMessage = RUndefined,
      reflectInURL = None, initialPage = None, rowsPerPage = None, filterFunction = None,
      loading = None, enableRowActions = None, enableRowSelection = None, table_state = None\<rparr>"

definition hooks_at_rest :: table_hooks where
  "hooks_at_rest =
     \<lparr>url = Map.empty, page = 2, zeroIndexPage = 1, seen_page = Some 2,
      seen_zeroIndexPage = Some 1, pageSizeValue = 15\<rparr>"



text \<open>
  A render in which both \<open>page\<close> and \<open>zeroIndexPage\<close> differ from the previous render's
  and disagree with each other.
\<close>

definition both_changed :: "'a page_hooks_scheme \<Rightarrow> bool" where
  "both_changed st =
     (seen_page st \<noteq> Some (page st) \<and> seen_zeroIndexPage st \<noteq> Some (zeroIndexPage st)
      \<and> page st - 1 \<noteq> zeroIndexPage st)"

text \<open>
  A submission of the plugin's form in dynamic mode: the pasted text is the base64
  encoding of the one-line document \<open>kind: Pod\<close>. The two functions stand for \<open>atob\<close> and
  \<open>yaml.load\<close> on that input.
\<close>

definition example_atob :: "string \<Rightarrow> js_error + string" where
  "example_atob b =
     (if b = ''a2luZDogUG9k'' then Inr ''kind: Pod''
      else Inl (Error ''The string to be decoded is not correctly encoded.''))"

definition example_yaml_load :: "string \<Rightarrow> js_error + yaml_value" where
  "example_yaml_load s =
     (if s = ''kind: Pod'' then Inr (YMap [(''kind'', YString ''Pod'')])
      else Inl (Error ''bad indentation of a mapping entry''))"

definition example_button :: ClusterCreationButton where
  "example_button =
     \<lparr>modal_open = True, kubeconfig = ''a2luZDogUG9k'', name = '''', server = '''',
      isDynamicClusterEnabled = True, error = None\<rparr>"

section \<open>Properties of the chart legends\<close>

text \<open>
  C5. For every used value and for every available capacity equal to \<open>0\<close> or \<open>-1\<close>, the
  legend function of the memory chart and that of the CPU chart both return the empty
  string, whatever the formatter, the translation and the \<open>noMetrics\<close> flag.
\<close>

theorem legend_empty_when_capacity_unknown:
  assumes "available = 0 \<or> available = - 1"
  shows "MemoryCircularChart_getLegend formatMetricValueUnit noMetrics used available = ''''
       \<and> CpuCircularChart_getLegend formatMetricValueUnit t noMetrics used available = ''''"
  using assms by (simp add: MemoryCircularChart_getLegend_def CpuCircularChart_getLegend_def)

theorem legend_empty_when_capacity_unknown_witness:
  "((- 1 :: real) = 0 \<or> (- 1 :: real) = - 1)
   \<and> MemoryCircularChart_getLegend (\<lambda>v u f. ''7 Gi'') None 5 (- 1) = ''''
   \<and> CpuCircularChart_getLegend (\<lambda>v u f. ''7'') (\<lambda>k. k) (Some True) 5 (- 1) = ''''
   \<and> MemoryCircularChart_getLegend (\<lambda>v u f. ''7 Gi'') (Some False) 5 0 = ''''
   \<and> CpuCircularChart_getLegend (\<lambda>v u f. ''7'') (\<lambda>k. k) None 5 0 = ''''"
  using legend_empty_when_capacity_unknown [of "- 1" "\<lambda>v u f. ''7 Gi''" None 5 "\<lambda>k. k"]
        legend_empty_when_capacity_unknown [of "- 1" "\<lambda>v u f. ''7''" "Some True" 5 "\<lambda>k. k"]
        legend_empty_when_capacity_unknown [of 0 "\<lambda>v u f. ''7 Gi''" "Some False" 5 "\<lambda>k. k"]
        legend_empty_when_capacity_unknown [of 0 "\<lambda>v u f. ''7''" None 5 "\<lambda>k. k"]
  by simp

text \<open>
  C6. For every available value other than \<open>0\<close> and \<open>-1\<close>, the legend is
  \<open><used-label> / <available-label>\<close> when metrics are present and the available label
  alone when \<open>noMetrics\<close> is true. The memory chart formats both values in the binary
  family; the CPU chart's available label is the formatted value followed by a space and
  the translated word \<open>cores\<close>, which is therefore what the legend shows when metrics are
  absent (the same label also closes the legend when metrics are present).
\<close>

theorem legend_with_capacity:
  assumes "available \<noteq> 0" and "available \<noteq> - 1"
  shows "MemoryCircularChart_getLegend fmt noMetrics used available =
           (if noMetrics = Some True then fmt available '''' ''binary''
            else fmt used '''' ''binary'' @ '' / '' @ fmt available '''' ''binary'')
       \<and> CpuCircularChart_getLegend fmt t noMetrics used available =
           (if noMetrics = Some True then fmt available '''' '''' @ '' '' @ t ''cores''
            else fmt used '''' ''cpu'' @ '' / '' @ (fmt available '''' '''' @ '' '' @ t ''cores''))"
  using assms
  by (cases noMetrics)
     (simp_all add: MemoryCircularChart_getLegend_def CpuCircularChart_getLegend_def Let_def)

theorem legend_with_capacity_witness:
  "(4 :: real) \<noteq> 0 \<and> (4 :: real) \<noteq> - 1
   \<and> MemoryCircularChart_getLegend (\<lambda>v u f. if v = 4 then ''4 Gi'' else ''1 Gi'') None 1 4
       = ''1 Gi / 4 Gi''
   \<and> MemoryCircularChart_getLegend (\<lambda>v u f. if v = 4 then ''4 Gi'' else ''1 Gi'') (Some True) 1 4
       = ''4 Gi''
   \<and> CpuCircularChart_getLegend (\<lambda>v u f. if v = 4 then ''4'' else ''1'') (\<lambda>k. k) None 1 4
       = ''1 / 4 cores''
   \<and> CpuCircularChart_getLegend (\<lambda>v u f. if v = 4 then ''4'' else ''1'') (\<lambda>k. k) (Some True) 1 4
       = ''4 cores''"
  using legend_with_capacity [of 4 "\<lambda>v u f. if v = 4 then ''4 Gi'' else ''1 Gi''" None 1 "\<lambda>k. k"]
        legend_with_capacity [of 4 "\<lambda>v u f. if v = 4 then ''4 Gi'' else ''1 Gi''" "Some True" 1 "\<lambda>k. k"]
        legend_with_capacity [of 4 "\<lambda>v u f. if v = 4 then ''4'' else ''1''" None 1 "\<lambda>k. k"]
        legend_with_capacity [of 4 "\<lambda>v u f. if v = 4 then ''4'' else ''1''" "Some True" 1 "\<lambda>k. k"]
  by simp

section \<open>Properties of the logo\<close>

text \<open>
  C8. Whenever the plugins-loaded flag is false, \<open>AppLogo\<close> returns the empty placeholder
  only, for all props, theme and navigation-bar mode, and whatever logo a plugin has
  registered in the store.
\<close>

theorem logo_placeholder_until_plugins_loaded:
  assumes "\<not> plugins_loaded state"
  shows "AppLogo getThemeName mode state props = EmptyContent"
  using assms by (simp add: AppLogo_def)

theorem logo_placeholder_until_plugins_loaded_witness:
  "\<not> plugins_loaded \<lparr>plugins_loaded = False, theme_logo = LogoComponent ''PluginLogo''\<rparr>
   \<and> AppLogo ''dark'' ''light''
        \<lparr>plugins_loaded = False, theme_logo = (LogoComponent ''PluginLogo'' :: (string, string) AppLogoType)\<rparr>
        \<lparr>logoType = Some small, themeName = Some ''dark''\<rparr> = EmptyContent"
  using logo_placeholder_until_plugins_loaded
          [of "\<lparr>plugins_loaded = False, theme_logo = (LogoComponent ''PluginLogo'' :: (string, string) AppLogoType)\<rparr>"
              "''dark''" "''light''" "\<lparr>logoType = Some small, themeName = Some ''dark''\<rparr>"]
  by simp

section \<open>Properties of the table\<close>

text \<open>
  C4. The table's rendered state follows a strict precedence. An error message that is
  provided (a truthy node, as \<open>!!errorMessage\<close> tests it) is shown instead of everything
  else; otherwise, while the loading flag is set, the loader is shown; otherwise, when the
  data prop is absent or empty, the empty-state message is shown (the \<open>emptyMessage\<close> prop,
  or the translated default); otherwise the populated grid is rendered.
\<close>

theorem table_state_precedence:
  "(truthy (errorMessage props) \<longrightarrow>
      Table t store props st = ErrorView (errorMessage props))
   \<and> (\<not> truthy (errorMessage props) \<and> loading props = Some True \<longrightarrow>
      Table t store props st = LoaderView (t ''Loading table data''))
   \<and> (\<not> truthy (errorMessage props) \<and> loading props \<noteq> Some True
        \<and> (data props = None \<or> data props = Some []) \<longrightarrow>
      Table t store props st =
        EmptyView (if truthy (emptyMessage props) then emptyMessage props
                   else RString (t ''No data to be shown.'')))
   \<and> (\<not> truthy (errorMessage props) \<and> loading props \<noteq> Some True
        \<and> data props = Some rows \<and> rows \<noteq> [] \<longrightarrow>
      Table t store props st =
        GridView (gridTemplateColumns props)
          \<lparr>opt_data = tableData props,
           opt_enablePagination = enablePagination store props,
           opt_pagination = \<lparr>pageIndex = zeroIndexPage st - 1, pageSize = pageSizeValue st\<rparr>\<rparr>)"
  by (cases "loading props"; cases "data props")
     (auto simp add: Table_def data_length_truthy_def Let_def)

theorem table_state_precedence_witness:
  "Table (\<lambda>k. k) [15, 25, 50]
     (no_props\<lparr>errorMessage := RString ''Forbidden'', loading := Some True, data := Some [''pod-a'']\<rparr>)
     hooks_at_rest = ErrorView (RString ''Forbidden'')
   \<and> Table (\<lambda>k. k) [15, 25, 50] (no_props\<lparr>loading := Some True, data := Some [''pod-a'']\<rparr>)
     hooks_at_rest = LoaderView ''Loading table data''
   \<and> Table (\<lambda>k. k) [15, 25, 50] (no_props\<lparr>data := Some []\<rparr>) hooks_at_rest
       = EmptyView (RString ''No data to be shown.'')
   \<and> Table (\<lambda>k. k) [15, 25, 50] (no_props\<lparr>data := Some [''pod-a'']\<rparr>) hooks_at_rest
       = GridView '''' \<lparr>opt_data = [''pod-a''], opt_enablePagination = False,
                        opt_pagination = \<lparr>pageIndex = 0, pageSize = 15\<rparr>\<rparr>"
  using table_state_precedence
          [of "no_props\<lparr>errorMessage := RString ''Forbidden'', loading := Some True, data := Some [''pod-a'']\<rparr>"
              "\<lambda>k. k" "[15, 25, 50]" hooks_at_rest "[''pod-a'']"]
        table_state_precedence
          [of "no_props\<lparr>loading := Some True, data := Some [''pod-a'']\<rparr>"
              "\<lambda>k. k" "[15, 25, 50]" hooks_at_rest "[''pod-a'']"]
        table_state_precedence
          [of "no_props\<lparr>data := Some []\<rparr>" "\<lambda>k. k" "[15, 25, 50]" hooks_at_rest "[]"]
        table_state_precedence
          [of "no_props\<lparr>data := Some [''pod-a'']\<rparr>" "\<lambda>k. k" "[15, 25, 50]" hooks_at_rest "[''pod-a'']"]
  by (simp add: no_props_def hooks_at_rest_def gridTemplateColumns_def tableData_def
        enablePagination_def rowsPerPageOptions_def)

text \<open>
  C10. When the table's data prop is absent or of length zero, a pagination-change event
  of the grid engine is a no-op for every updater: the hook state is returned as it was,
  so the page index, the page size and the URL parameters all stay unchanged.
\<close>

theorem pagination_noop_without_data:
  assumes "data props = None \<or> data props = Some []"
  shows "onPaginationChange props updater st = st"
  using assms by (auto simp add: onPaginationChange_def data_length_truthy_def)

theorem pagination_noop_without_data_witness:
  "(data (no_props\<lparr>reflectInURL := Some (ReflectPrefix ''x''), data := Some []\<rparr>) = None
      \<or> data (no_props\<lparr>reflectInURL := Some (ReflectPrefix ''x''), data := Some []\<rparr>) = Some [])
   \<and> onPaginationChange (no_props\<lparr>reflectInURL := Some (ReflectPrefix ''x''), data := Some []\<rparr>)
        (\<lambda>old. old\<lparr>pageIndex := pageIndex old + 1, pageSize := 50\<rparr>) hooks_at_rest = hooks_at_rest
   \<and> onPaginationChange (no_props\<lparr>reflectInURL := Some (ReflectPrefix ''x'')\<rparr>)
        (\<lambda>old. old\<lparr>pageIndex := pageIndex old + 1, pageSize := 50\<rparr>) hooks_at_rest = hooks_at_rest"
  using pagination_noop_without_data
          [of "no_props\<lparr>reflectInURL := Some (ReflectPrefix ''x''), data := Some []\<rparr>"
              "\<lambda>old. old\<lparr>pageIndex := pageIndex old + 1, pageSize := 50\<rparr>" hooks_at_rest]
        pagination_noop_without_data
          [of "no_props\<lparr>reflectInURL := Some (ReflectPrefix ''x'')\<rparr>"
              "\<lambda>old. old\<lparr>pageIndex := pageIndex old + 1, pageSize := 50\<rparr>" hooks_at_rest]
  by (simp add: no_props_def)

section \<open>The logo's props\<close>

text \<open>
  C9, as the code has it. Once the plugins are loaded: with no plugin logo the built-in
  asset is chosen by the \<open>logoType\<close> prop (\<open>large\<close> when omitted) and by the
  navigation-bar mode, whatever the \<open>themeName\<close> prop and the global theme are; a plugin's
  component receives the \<open>logoType\<close> prop (\<open>large\<close> when omitted) and the \<open>themeName\<close>
  prop (the global theme when omitted); a plugin's element is rendered as it is.
\<close>

theorem logo_props_by_registration:
  assumes "plugins_loaded state"
  shows "AppLogo getThemeName mode state props =
           (case theme_logo state of
              NoLogo \<Rightarrow>
                BuiltIn (OriginalAppLogo
                           (Some (case logoType props of None \<Rightarrow> large | Some l \<Rightarrow> l)) (Some mode))
            | LogoComponent c \<Rightarrow>
                ErrorBoundary (ComponentWith c
                  (case logoType props of None \<Rightarrow> large | Some l \<Rightarrow> l)
                  (case themeName props of None \<Rightarrow> getThemeName | Some n \<Rightarrow> n))
            | LogoElement e \<Rightarrow> ErrorBoundary (ElementAsIs e))"
  using assms by (simp add: AppLogo_def Let_def split: AppLogoType.splits)

theorem logo_props_by_registration_witness:
  "plugins_loaded \<lparr>plugins_loaded = True, theme_logo = (NoLogo :: (string, string) AppLogoType)\<rparr>
   \<and> AppLogo ''dark'' ''light''
       \<lparr>plugins_loaded = True, theme_logo = (NoLogo :: (string, string) AppLogoType)\<rparr>
       \<lparr>logoType = Some small, themeName = Some ''dark''\<rparr> = BuiltIn LogoDark
   \<and> AppLogo ''dark'' ''dark''
       \<lparr>plugins_loaded = True, theme_logo = (NoLogo :: (string, string) AppLogoType)\<rparr>
       \<lparr>logoType = None, themeName = Some ''light''\<rparr> = BuiltIn LogoWithTextLight
   \<and> AppLogo ''dark'' ''light''
       \<lparr>plugins_loaded = True, theme_logo = (LogoComponent ''PluginLogo'' :: (string, string) AppLogoType)\<rparr>
       \<lparr>logoType = Some small, themeName = Some ''light''\<rparr>
         = ErrorBoundary (ComponentWith ''PluginLogo'' small ''light'')
   \<and> AppLogo ''dark'' ''light''
       \<lparr>plugins_loaded = True, theme_logo = (LogoComponent ''PluginLogo'' :: (string, string) AppLogoType)\<rparr>
       \<lparr>logoType = None, themeName = None\<rparr>
         = ErrorBoundary (ComponentWith ''PluginLogo'' large ''dark'')
   \<and> AppLogo ''dark'' ''light''
       \<lparr>plugins_loaded = True, theme_logo = (LogoElement ''<img/>'' :: (string, string) AppLogoType)\<rparr>
       \<lparr>logoType = Some small, themeName = Some ''light''\<rparr>
         = ErrorBoundary (ElementAsIs ''<img/>'')"
  using logo_props_by_registration
          [of "\<lparr>plugins_loaded = True, theme_logo = (NoLogo :: (string, string) AppLogoType)\<rparr>"
              "''dark''" "''light''" "\<lparr>logoType = Some small, themeName = Some ''dark''\<rparr>"]
        logo_props_by_registration
          [of "\<lparr>plugins_loaded = True, theme_logo = (NoLogo :: (string, string) AppLogoType)\<rparr>"
              "''dark''" "''dark''" "\<lparr>logoType = None, themeName = Some ''light''\<rparr>"]
        logo_props_by_registration
          [of "\<lparr>plugins_loaded = True, theme_logo = (LogoComponent ''PluginLogo'' :: (string, string) AppLogoType)\<rparr>"
              "''dark''" "''light''" "\<lparr>logoType = Some small, themeName = Some ''light''\<rparr>"]
        logo_props_by_registration
          [of "\<lparr>plugins_loaded = True, theme_logo = (LogoComponent ''PluginLogo'' :: (string, string) AppLogoType)\<rparr>"
              "''dark''" "''light''" "\<lparr>logoType = None, themeName = None\<rparr>"]
        logo_props_by_registration
          [of "\<lparr>plugins_loaded = True, theme_logo = (LogoElement ''<img/>'' :: (string, string) AppLogoType)\<rparr>"
              "''dark''" "''light''" "\<lparr>logoType = Some small, themeName = Some ''light''\<rparr>"]
  by (simp add: OriginalAppLogo_def)

text \<open>
  An explicit \<open>themeName\<close> does not select the built-in asset: with \<open>themeName = "dark"\<close>
  supplied, \<open>logoType = "large"\<close>, no plugin logo and the navigation bar in light mode,
  the logo rendered is the one for the light theme, not the one \<open>OriginalAppLogo\<close>
  selects for \<open>dark\<close>.
\<close>

theorem logo_theme_prop_counterexample:
  "AppLogo ''dark'' ''light''
     \<lparr>plugins_loaded = True, theme_logo = (NoLogo :: (string, string) AppLogoType)\<rparr>
     \<lparr>logoType = Some large, themeName = Some ''dark''\<rparr> = BuiltIn LogoWithTextDark
   \<and> AppLogo ''dark'' ''light''
     \<lparr>plugins_loaded = True, theme_logo = (NoLogo :: (string, string) AppLogoType)\<rparr>
     \<lparr>logoType = Some large, themeName = Some ''dark''\<rparr>
       \<noteq> BuiltIn (OriginalAppLogo (Some large) (Some ''dark''))"
  by (simp add: AppLogo_def OriginalAppLogo_def)

section \<open>Pagination controls\<close>




section \<open>Column layout\<close>






section \<open>Cluster registration\<close>

text \<open>
  C7. In dynamic-cluster mode, when the submitted base64 string decodes and parses to a
  document that does not have both \<open>apiVersion\<close> equal to \<open>v1\<close> and \<open>kind\<close> equal to
  \<open>Config\<close>, submission leaves the component as it was but for the error, which is exactly
  \<open>Invalid kubeconfig format: Missing required fields\<close>, and \<open>Headlamp.setCluster\<close> is
  not called.
\<close>

theorem invalid_kubeconfig_aborts_submission:
  assumes "isDynamicClusterEnabled st"
    and "atob (kubeconfig st) = Inr decoded"
    and "yaml_load decoded = Inr doc"
    and "\<not> (property doc ''apiVersion'' = YString ''v1'' \<and> property doc ''kind'' = YString ''Config'')"
  shows "handleSubmit atob yaml_load st =
           (st\<lparr>error := Some ''Invalid kubeconfig format: Missing required fields''\<rparr>, [])"
  using assms by (auto simp add: handleSubmit_def isValidKubeconfig_def Let_def)

theorem invalid_kubeconfig_aborts_submission_witness:
  "isDynamicClusterEnabled example_button
   \<and> example_atob (kubeconfig example_button) = Inr ''kind: Pod''
   \<and> example_yaml_load ''kind: Pod'' = Inr (YMap [(''kind'', YString ''Pod'')])
   \<and> \<not> (property (YMap [(''kind'', YString ''Pod'')]) ''apiVersion'' = YString ''v1''
        \<and> property (YMap [(''kind'', YString ''Pod'')]) ''kind'' = YString ''Config'')
   \<and> handleSubmit example_atob example_yaml_load example_button =
       (example_button\<lparr>error := Some ''Invalid kubeconfig format: Missing required fields''\<rparr>, [])"
proof -
  have h: "isDynamicClusterEnabled example_button"
    "example_atob (kubeconfig example_button) = Inr ''kind: Pod''"
    "example_yaml_load ''kind: Pod'' = Inr (YMap [(''kind'', YString ''Pod'')])"
    "\<not> (property (YMap [(''kind'', YString ''Pod'')]) ''apiVersion'' = YString ''v1''
        \<and> property (YMap [(''kind'', YString ''Pod'')]) ''kind'' = YString ''Config'')"
    by (simp_all add: example_button_def example_atob_def example_yaml_load_def)
  show ?thesis
    using h invalid_kubeconfig_aborts_submission
              [of example_button example_atob "''kind: Pod''" example_yaml_load
                  "YMap [(''kind'', YString ''Pod'')]"]
    by simp
qed

text \<open>
  The other two outcomes in dynamic mode, for comparison: a document with both marker
  fields is submitted, and a string that does not decode aborts with the decoder's message.
\<close>

lemma valid_kubeconfig_is_submitted:
  assumes "isDynamicClusterEnabled st"
    and "atob (kubeconfig st) = Inr decoded"
    and "yaml_load decoded = Inr (YMap kvs)"
    and "map_of kvs ''apiVersion'' = Some (YString ''v1'')"
    and "map_of kvs ''kind'' = Some (YString ''Config'')"
  shows "handleSubmit atob yaml_load st =
           (st\<lparr>error := None, modal_open := False\<rparr>, [Kubeconfig (kubeconfig st)])"
  using assms by (simp add: handleSubmit_def isValidKubeconfig_def Let_def)

lemma undecodable_kubeconfig_aborts_submission:
  assumes "isDynamicClusterEnabled st"
    and "atob (kubeconfig st) = Inl e"
  shows "handleSubmit atob yaml_load st =
           (st\<lparr>error := Some (''Error decoding/parsing kubeconfig: '' @ message e)\<rparr>, [])"
  using assms by (simp add: handleSubmit_def isValidKubeconfig_def Let_def)

section \<open>URL-reflected page state\<close>

text \<open>
  A table with \<open>reflectInURL = "x"\<close> creates its page hook with the key \<open>p\<close>, the prefix
  \<open>x\<close> and the initial page 1.
\<close>

lemma Table_mount_prefix_x:
  "page_hooks.truncate
     (Table_mount getTablesRowsPerPage store (no_props\<lparr>reflectInURL := Some (ReflectPrefix ''x'')\<rparr>) u)
     = usePageURLState_mount ''p'' ''x'' 1 u"
  by (simp add: Table_mount_def no_props_def shouldReflectInURL_def url_prefix_def
        page_hooks.truncate_def usePageURLState_mount_def Let_def)













text \<open>
  The limit of the above: when both sides change in the same render and disagree, each
  effect overwrites the other side with the stale value, and the hook never comes to rest.
\<close>

lemma both_changed_effects:
  "both_changed st \<Longrightarrow> both_changed (usePageURLState_effects key prefix st)"
  by (auto simp add: both_changed_def usePageURLState_effects_def Let_def setPage_def
        setZeroIndexPage_def)

lemma settle_Some_not_both_changed:
  assumes "usePageURLState_settle key prefix st = Some y"
  shows "\<not> both_changed st"
proof (rule usePageURLState_settle.raw_induct
         [where P = "\<lambda>k p s r. \<not> both_changed s", OF _ assms])
  fix settle k p r and s :: "'a page_hooks_scheme"
  assume IH: "\<And>k p s r. settle k p s = Some r \<Longrightarrow> \<not> both_changed s"
    and body: "(if quiescent s then Some s else settle k p (usePageURLState_effects k p s)) = Some r"
  show "\<not> both_changed s"
  proof
    assume bc: "both_changed s"
    then have "\<not> quiescent s" by (simp add: both_changed_def quiescent_def)
    with body have "settle k p (usePageURLState_effects k p s) = Some r" by simp
    then have "\<not> both_changed (usePageURLState_effects k p s)" by (rule IH)
    then show False using both_changed_effects [OF bc] by simp
  qed
qed

lemma both_sides_changed_never_settles:
  "both_changed st \<Longrightarrow> usePageURLState_settle key prefix st = None"
  using settle_Some_not_both_changed [of key prefix st]
  by (cases "usePageURLState_settle key prefix st") auto

end
